theory Spec2Isabelle
  imports Main "HOL-Library.Word"
begin

section \<open>The tenant policy store of burnell (package policy)\<close>

text \<open>
  The tenant database keeps one \<open>TenantPlan\<close> document per tenant. A Pulsar topic is the
  durable log; \<open>TenantPolicyHandler.tenants\<close> is the in-memory map that the writer path
  (\<open>UpdateTenant\<close>, \<open>DeleteTenant\<close>, \<open>updateDb\<close>) and the reader loop (\<open>dbListener\<close>)
  keep current. The embedding below follows the Go source function by function. Everything
  the Go code takes from outside (the clock, the Pulsar client, the plan table) is an
  explicit argument of the HOL function.
\<close>

subsection \<open>Documents\<close>

text \<open>
  Go's \<open>int\<close> and \<open>time.Duration\<close> are taken as 64-bit integers (the amd64 and arm64
  targets); arithmetic wraps around. A \<open>time.Time\<close> is a plain integer whose value 0 stands
  for the zero \<open>time.Time{}\<close>.
\<close>

type_synonym go_int = "64 word"
type_synonym Duration = "64 word"
type_synonym Time = int

text \<open>
  Modelled from the spec: the declaration of \<open>TenantStatus\<close> is not among the sources. The
  source names the constants \<open>Reserved0\<close> (compared with the zero value in
  \<open>takeTenantStatus\<close>), \<open>Activated\<close> and \<open>Deleted\<close>; the specification lists the status
  as an enumeration of Unset (the zero value), Activated, Deactivated and Deleted.
\<close>

datatype TenantStatus = Reserved0 | Activated | Deactivated | Deleted

text \<open>
  The struct declarations of \<open>PlanPolicy\<close> and \<open>TenantPlan\<close> are not among the sources
  either; the records carry exactly the fields that the functions of the package read
  and write.
\<close>

record PlanPolicy =
  Name :: string
  NumOfTopics :: go_int
  NumOfNamespaces :: go_int
  MessageHourRetention :: go_int
  MessageRetention :: Duration
  NumOfProducers :: go_int
  NumOfConsumers :: go_int
  Functions :: go_int
  FeatureCodes :: string

record TenantPlan =
  Name :: string
  TenantStatus :: TenantStatus
  Org :: string
  Users :: string
  PlanType :: string
  UpdatedAt :: Time
  Policy :: PlanPolicy
  Audit :: string

text \<open>The zero values \<open>PlanPolicy{}\<close> and \<open>TenantPlan{}\<close>.\<close>

definition emptyPolicy :: PlanPolicy where
  "emptyPolicy = \<lparr>PlanPolicy.Name = [], NumOfTopics = 0, NumOfNamespaces = 0,
     MessageHourRetention = 0, MessageRetention = 0, NumOfProducers = 0,
     NumOfConsumers = 0, Functions = 0, FeatureCodes = []\<rparr>"

definition emptyPlan :: TenantPlan where
  "emptyPlan = \<lparr>TenantPlan.Name = [], TenantStatus = Reserved0, Org = [], Users = [],
     PlanType = [], UpdatedAt = 0, Policy = emptyPolicy, Audit = []\<rparr>"

text \<open>
  The errors of the package: the two \<open>fmt.Errorf\<close> values of the policy code and one value
  for each call into the Pulsar client or the JSON codec that can fail.
\<close>

datatype error =
    NotFound
  | PlanTypeMissing
  | CreateProducerError
  | MarshalError
  | SendError
  | CreateReaderError
  | ReaderError
  | UnmarshalError

subsection \<open>Helpers\<close>

text \<open>
  \<open>strings.ToLower\<close> of the Go library, on the bytes of the string: the ASCII capitals move
  to their small letters, every other byte stays (the Go function also maps capitals
  beyond ASCII; plan type names are ASCII).
\<close>

definition ToLower :: "string \<Rightarrow> string" where
  "ToLower s =
     map (\<lambda>c. let n = (of_char c :: nat)
               in if 65 \<le> n \<and> n \<le> 90 then char_of (n + 32) else c) s"

text \<open>
  Modelled from the spec: \<open>util.AssignString\<close> is not among the sources. The
  specification has the merge keep the requested string when it is non-empty and take
  the existing one otherwise.
\<close>

definition AssignString :: "string \<Rightarrow> string \<Rightarrow> string" where
  "AssignString a b = (if a \<noteq> [] then a else b)"

definition takeNonZero :: "go_int \<Rightarrow> go_int \<Rightarrow> go_int" where
  "takeNonZero a b = (if a = 0 then b else a)"

definition takeTenantStatus :: "TenantStatus \<Rightarrow> TenantStatus \<Rightarrow> TenantStatus" where
  "takeTenantStatus a b = (if a = Reserved0 then b else a)"

text \<open>\<open>time.Hour\<close> in nanoseconds.\<close>

definition Hour :: Duration where
  "Hour = 3600000000000"

subsection \<open>ReconcileTenantPlan\<close>

text \<open>
  \<open>getPlanPolicy\<close> is not among the sources: the plan table is the first argument, with
  \<open>None\<close> for the nil pointer. The second argument is the value that \<open>time.Now()\<close> returns
  inside the call. Each \<open>let\<close> of the update branch is one assignment of the source, in
  the source's order.
\<close>

definition ReconcileTenantPlan ::
  "(string \<Rightarrow> PlanPolicy option) \<Rightarrow> Time \<Rightarrow> TenantPlan \<Rightarrow> TenantPlan \<Rightarrow> error + TenantPlan" where
  "ReconcileTenantPlan getPlanPolicy now reqPlan0 existingPlan =
     (let reqPlan = reqPlan0\<lparr>UpdatedAt := now\<rparr> in
      case getPlanPolicy (ToLower (PlanType reqPlan)) of
        None \<Rightarrow> Inl PlanTypeMissing
      | Some reqPlanPolicy \<Rightarrow>
          if emptyPlan = existingPlan then
            (let r1 = (if Audit reqPlan = [] then reqPlan\<lparr>Audit := ''initial creation,''\<rparr>
                       else reqPlan);
                 r2 = (if Policy r1 = emptyPolicy then r1\<lparr>Policy := reqPlanPolicy\<rparr> else r1);
                 r3 = r2\<lparr>TenantStatus := takeTenantStatus (TenantStatus r2) Activated\<rparr>
             in Inr r3)
          else
            (let ep = Policy existingPlan;
                 p1 = (Policy reqPlan)\<lparr>NumOfTopics :=
                         takeNonZero (NumOfTopics (Policy reqPlan)) (NumOfTopics ep)\<rparr>;
                 p2 = p1\<lparr>NumOfNamespaces :=
                         takeNonZero (NumOfNamespaces p1) (NumOfNamespaces ep)\<rparr>;
                 p3 = p2\<lparr>NumOfProducers :=
                         takeNonZero (NumOfProducers p2) (NumOfProducers ep)\<rparr>;
                 p4 = p3\<lparr>NumOfConsumers :=
                         takeNonZero (NumOfConsumers p3) (NumOfConsumers ep)\<rparr>;
                 p5 = p4\<lparr>Functions := takeNonZero (Functions p4) (Functions ep)\<rparr>;
                 p6 = p5\<lparr>PlanPolicy.Name :=
                         AssignString (PlanPolicy.Name p5) (PlanPolicy.Name ep)\<rparr>;
                 p7 = p6\<lparr>FeatureCodes := AssignString (FeatureCodes p6) (FeatureCodes ep)\<rparr>;
                 p8 = (if MessageHourRetention p7 = 0
                       then p7\<lparr>MessageHourRetention := MessageHourRetention ep\<rparr> else p7);
                 p9 = p8\<lparr>MessageRetention := MessageHourRetention p8 * Hour\<rparr>;
                 r1 = reqPlan\<lparr>Policy := p9\<rparr>;
                 r2 = r1\<lparr>TenantStatus :=
                         takeTenantStatus (TenantStatus r1) (TenantStatus existingPlan)\<rparr>;
                 r3 = r2\<lparr>Org := AssignString (Org r2) (Org existingPlan)\<rparr>;
                 r4 = r3\<lparr>Users := AssignString (Users r3) (Users existingPlan)\<rparr>;
                 r5 = r4\<lparr>Audit := Audit existingPlan @ '','' @ Audit r4\<rparr>
             in Inr r5))"

subsection \<open>The handler: cache, writer path, reader loop\<close>

text \<open>
  Of \<open>TenantPolicyHandler\<close> the functions below use the map \<open>tenants\<close> (under its lock) and
  the Pulsar client. The map is passed in and returned; the client's answer to one
  \<open>updateDb\<close> call is an argument.
\<close>

type_synonym tenants = "string \<rightharpoonup> TenantPlan"

text \<open>
  What the outside world does during one \<open>updateDb\<close> call: \<open>CreateProducer\<close> fails,
  \<open>json.Marshal\<close> fails, \<open>producer.Send\<close> fails, or the broker acknowledges the message.
\<close>

datatype sendOutcome = CreateProducerFails | MarshalFails | SendFails | Acked

text \<open>
  \<open>updateDb\<close> returns \<open>(TenantPlan{}, err)\<close> on each failure, before it reaches the lock;
  the sum type carries the error alone. The second component is the map after the call.
\<close>

definition updateDb ::
  "sendOutcome \<Rightarrow> Time \<Rightarrow> tenants \<Rightarrow> TenantPlan \<Rightarrow> (error + TenantPlan) \<times> tenants" where
  "updateDb io now s tenantPlan0 =
     (if io = CreateProducerFails then (Inl CreateProducerError, s)
      else
        let tenantPlan = tenantPlan0\<lparr>UpdatedAt := now\<rparr> in
        if io = MarshalFails then (Inl MarshalError, s)
        else if io = SendFails then (Inl SendError, s)
        else (Inr tenantPlan, s(TenantPlan.Name tenantPlan \<mapsto> tenantPlan)))"

definition GetTenant :: "tenants \<Rightarrow> string \<Rightarrow> error + TenantPlan" where
  "GetTenant s tenantName =
     (case s tenantName of Some t \<Rightarrow> Inr t | None \<Rightarrow> Inl NotFound)"

text \<open>
  \<open>UpdateTenant\<close> returns the Go triple (plan, HTTP status, error); \<open>None\<close> is the nil
  error. \<open>existingTenant, _ := s.GetTenant(tenantName)\<close> drops the error and keeps the
  zero plan that \<open>GetTenant\<close> returns with it. The clock is read twice: \<open>now1\<close> inside
  \<open>ReconcileTenantPlan\<close>, \<open>now2\<close> inside \<open>updateDb\<close>.
\<close>

definition UpdateTenant ::
  "(string \<Rightarrow> PlanPolicy option) \<Rightarrow> Time \<Rightarrow> sendOutcome \<Rightarrow> Time \<Rightarrow> tenants \<Rightarrow> string \<Rightarrow> TenantPlan
     \<Rightarrow> (TenantPlan \<times> nat \<times> error option) \<times> tenants" where
  "UpdateTenant getPlanPolicy now1 io now2 s tenantName tenantPlan0 =
     (let existingTenant = (case GetTenant s tenantName of Inr t \<Rightarrow> t | Inl _ \<Rightarrow> emptyPlan);
          tenantPlan = tenantPlan0\<lparr>TenantPlan.Name := tenantName\<rparr>
      in case ReconcileTenantPlan getPlanPolicy now1 tenantPlan existingTenant of
           Inl err \<Rightarrow> ((emptyPlan, 422, Some err), s)
         | Inr newPlan \<Rightarrow>
             (case updateDb io now2 s newPlan of
                (Inl err, s') \<Rightarrow> ((emptyPlan, 500, Some err), s')
              | (Inr updatedPlan, s') \<Rightarrow> ((updatedPlan, 200, None), s')))"

text \<open>
  \<open>UpdateTenant\<close> holds \<open>tenantsLock\<close> twice: inside \<open>GetTenant\<close> for the read of its first
  statement, and inside \<open>updateDb\<close> for the Set. Between the two the lock is free and
  other calls may change the map. \<open>UpdateTenant_after_read\<close> is the rest of the function
  from its second statement on, given the \<open>existingTenant\<close> that the read returned and
  the map \<open>s\<close> as it is when \<open>updateDb\<close> takes the lock.
\<close>

definition UpdateTenant_after_read ::
  "(string \<Rightarrow> PlanPolicy option) \<Rightarrow> Time \<Rightarrow> sendOutcome \<Rightarrow> Time \<Rightarrow> tenants \<Rightarrow> string \<Rightarrow> TenantPlan
     \<Rightarrow> TenantPlan \<Rightarrow> (TenantPlan \<times> nat \<times> error option) \<times> tenants" where
  "UpdateTenant_after_read getPlanPolicy now1 io now2 s tenantName tenantPlan0 existingTenant =
     (let tenantPlan = tenantPlan0\<lparr>TenantPlan.Name := tenantName\<rparr>
      in case ReconcileTenantPlan getPlanPolicy now1 tenantPlan existingTenant of
           Inl err \<Rightarrow> ((emptyPlan, 422, Some err), s)
         | Inr newPlan \<Rightarrow>
             (case updateDb io now2 s newPlan of
                (Inl err, s') \<Rightarrow> ((emptyPlan, 500, Some err), s')
              | (Inr updatedPlan, s') \<Rightarrow> ((updatedPlan, 200, None), s')))"

text \<open>
  \<open>DeleteTenant\<close> sends the tombstone through \<open>updateDb\<close> and then deletes the key. The map
  between the two steps is \<open>snd (updateDb io now s t)\<close> for the tombstoned \<open>t\<close>.
\<close>

definition DeleteTenant ::
  "sendOutcome \<Rightarrow> Time \<Rightarrow> tenants \<Rightarrow> string \<Rightarrow> (error + TenantPlan) \<times> tenants" where
  "DeleteTenant io now s tenantName =
     (case s tenantName of
        None \<Rightarrow> (Inl NotFound, s)
      | Some t0 \<Rightarrow>
          let t = t0\<lparr>TenantStatus := Deleted\<rparr> in
          (case updateDb io now s t of
             (Inl err, s') \<Rightarrow> (Inl err, s')
           | (Inr _, s') \<Rightarrow> (Inr t, s'(tenantName := None))))"

text \<open>
  One delivery of the reader: \<open>reader.Next\<close> fails, or it delivers a message. For a
  message the event carries what \<open>json.Unmarshal(data.Payload(), &t)\<close> leaves in \<open>t\<close>
  (a fresh \<open>TenantPlan{}\<close> before the call) and the error it returns, if any.
\<close>

datatype readerEvent = NextFails | Msg TenantPlan "error option"

text \<open>
  How a run of the loop ends: \<open>Terminated e\<close> when \<open>dbListener\<close> returns \<open>e\<close>, which runs
  the deferred function that sends the \<open>liveSignal\<close>; \<open>Waiting\<close> when every delivery so far
  has been handled and the loop sits in \<open>reader.Next\<close>.
\<close>

datatype loopEnd = Terminated error | Waiting

text \<open>The statements of the loop body under \<open>tenantsLock\<close>.\<close>

definition applyEntry :: "tenants \<Rightarrow> TenantPlan \<Rightarrow> tenants" where
  "applyEntry s t =
     (if TenantStatus t \<noteq> Deleted then s(TenantPlan.Name t \<mapsto> t)
      else s(TenantPlan.Name t := None))"

text \<open>
  The \<open>for\<close> loop of \<open>dbListener\<close> over the deliveries of the reader. On an unmarshal error
  the source logs and goes on to the locked statements with the \<open>t\<close> it has.
\<close>

fun dbListenerLoop :: "tenants \<Rightarrow> readerEvent list \<Rightarrow> tenants \<times> loopEnd" where
  "dbListenerLoop s [] = (s, Waiting)"
| "dbListenerLoop s (NextFails # evs) = (s, Terminated ReaderError)"
| "dbListenerLoop s (Msg t err # evs) = dbListenerLoop (applyEntry s t) evs"

definition dbListener :: "bool \<Rightarrow> tenants \<Rightarrow> readerEvent list \<Rightarrow> tenants \<times> loopEnd" where
  "dbListener createReaderFails s evs =
     (if createReaderFails then (s, Terminated CreateReaderError)
      else dbListenerLoop s evs)"

text \<open>
  A plan table for concrete evaluations: one plan, \<open>free\<close>, with a default policy.
\<close>

definition freePolicy :: PlanPolicy where
  "freePolicy = \<lparr>PlanPolicy.Name = ''free'', NumOfTopics = 5, NumOfNamespaces = 1,
     MessageHourRetention = 48, MessageRetention = 48 * Hour, NumOfProducers = 3,
     NumOfConsumers = 5, Functions = 1, FeatureCodes = []\<rparr>"

definition samplePlans :: "string \<Rightarrow> PlanPolicy option" where
  "samplePlans plan = (if plan = ''free'' then Some freePolicy else None)"

subsection \<open>Notions used in the statements\<close>

text \<open>
  The record that \<open>UpdateTenant\<close> reconciles against: the cached plan of the key, or the
  zero plan when the key is absent (its first statement).
\<close>

definition existingOf :: "tenants \<Rightarrow> string \<Rightarrow> TenantPlan" where
  "existingOf s k = (case s k of Some t \<Rightarrow> t | None \<Rightarrow> emptyPlan)"

text \<open>Key/name coherence: every cached plan is stored under its own \<open>Name\<close>.\<close>

definition coherent :: "tenants \<Rightarrow> bool" where
  "coherent s = (\<forall>k t. s k = Some t \<longrightarrow> TenantPlan.Name t = k)"

text \<open>
  One run of \<open>dbListener\<close> (its reader created without error) over the deliveries \<open>evs\<close>,
  as a function on the cache. The handler keeps its map across restarts of the
  listener, so a restart runs the same deliveries on the map the last run left.
\<close>

definition replay :: "readerEvent list \<Rightarrow> tenants \<Rightarrow> tenants" where
  "replay evs s = fst (dbListener False s evs)"

text \<open>The keys that a run of the loop writes or deletes.\<close>

fun touched :: "readerEvent list \<Rightarrow> string set" where
  "touched [] = {}"
| "touched (NextFails # evs) = {}"
| "touched (Msg t err # evs) = insert (TenantPlan.Name t) (touched evs)"

text \<open>Concrete values for the evaluations: a policy with every quota at 10, a stored plan.\<close>

definition quota10 :: PlanPolicy where
  "quota10 = emptyPolicy\<lparr>NumOfTopics := 10, NumOfNamespaces := 10, NumOfProducers := 10,
      NumOfConsumers := 10, Functions := 10\<rparr>"

definition acmePlan :: TenantPlan where
  "acmePlan = \<lparr>TenantPlan.Name = ''acme'', TenantStatus = Activated, Org = [], Users = [],
      PlanType = ''free'', UpdatedAt = 2, Policy = freePolicy, Audit = ''initial creation,''\<rparr>"

section \<open>Properties\<close>

lemma ToLower_free: "ToLower ''free'' = ''free''"
  by (simp add: ToLower_def)

subsection \<open>Both branches of ReconcileTenantPlan in closed form\<close>

text \<open>
  With a recognised plan type and the zero plan as the existing one, the creation branch
  runs: the audit marker, the class policy and the status are filled in under their
  three guards, and nothing else but \<open>UpdatedAt\<close> changes.
\<close>

lemma reconcile_create:
  assumes "getPlanPolicy (ToLower (PlanType R)) = Some d"
  shows "ReconcileTenantPlan getPlanPolicy now R emptyPlan =
     Inr (R\<lparr>UpdatedAt := now,
            Audit := (if Audit R = [] then ''initial creation,'' else Audit R),
            Policy := (if Policy R = emptyPolicy then d else Policy R),
            TenantStatus := (if TenantStatus R = Reserved0 then Activated else TenantStatus R)\<rparr>)"
  using assms by (simp add: ReconcileTenantPlan_def Let_def takeTenantStatus_def)

text \<open>
  With a recognised plan type and any other existing plan, the update branch runs; the
  result, field by field.
\<close>

lemma reconcile_merge:
  assumes "getPlanPolicy (ToLower (PlanType R)) = Some d" and "E \<noteq> emptyPlan"
  shows "ReconcileTenantPlan getPlanPolicy now R E =
     Inr \<lparr>TenantPlan.Name = TenantPlan.Name R,
          TenantStatus = (if TenantStatus R = Reserved0 then TenantStatus E else TenantStatus R),
          Org = (if Org R = [] then Org E else Org R),
          Users = (if Users R = [] then Users E else Users R),
          PlanType = PlanType R,
          UpdatedAt = now,
          Policy = \<lparr>
             PlanPolicy.Name = (if PlanPolicy.Name (Policy R) = [] then PlanPolicy.Name (Policy E)
                                else PlanPolicy.Name (Policy R)),
             NumOfTopics = (if NumOfTopics (Policy R) = 0 then NumOfTopics (Policy E)
                            else NumOfTopics (Policy R)),
             NumOfNamespaces = (if NumOfNamespaces (Policy R) = 0 then NumOfNamespaces (Policy E)
                                else NumOfNamespaces (Policy R)),
             MessageHourRetention = (if MessageHourRetention (Policy R) = 0
                                     then MessageHourRetention (Policy E)
                                     else MessageHourRetention (Policy R)),
             MessageRetention = (if MessageHourRetention (Policy R) = 0
                                 then MessageHourRetention (Policy E)
                                 else MessageHourRetention (Policy R)) * Hour,
             NumOfProducers = (if NumOfProducers (Policy R) = 0 then NumOfProducers (Policy E)
                               else NumOfProducers (Policy R)),
             NumOfConsumers = (if NumOfConsumers (Policy R) = 0 then NumOfConsumers (Policy E)
                               else NumOfConsumers (Policy R)),
             Functions = (if Functions (Policy R) = 0 then Functions (Policy E)
                          else Functions (Policy R)),
             FeatureCodes = (if FeatureCodes (Policy R) = [] then FeatureCodes (Policy E)
                             else FeatureCodes (Policy R))\<rparr>,
          Audit = Audit E @ '','' @ Audit R\<rparr>"
proof -
  have ne: "emptyPlan \<noteq> E"
    using assms(2) by blast
  show ?thesis
    using assms(1) ne
    apply (simp add: ReconcileTenantPlan_def Let_def split del: if_split)
    apply (intro TenantPlan.equality PlanPolicy.equality)
    apply (simp_all add: takeTenantStatus_def takeNonZero_def AssignString_def)
    done
qed

lemma reconcile_unknown_plan:
  "getPlanPolicy (ToLower (PlanType R)) = None \<Longrightarrow>
     ReconcileTenantPlan getPlanPolicy now R E = Inl PlanTypeMissing"
  by (simp add: ReconcileTenantPlan_def)

subsection \<open>Facts about the helpers of the writer path\<close>

lemma reconcile_Name:
  assumes "ReconcileTenantPlan getPlanPolicy now R E = Inr r"
  shows "TenantPlan.Name r = TenantPlan.Name R"
proof (cases "getPlanPolicy (ToLower (PlanType R))")
  case None
  with assms show ?thesis by (simp add: reconcile_unknown_plan)
next
  case (Some d)
  have "TenantPlan.Name (projr (ReconcileTenantPlan getPlanPolicy now R E)) = TenantPlan.Name R"
  proof (cases "E = emptyPlan")
    case True
    with Some show ?thesis
      by (simp add: reconcile_create [of getPlanPolicy R d])
  next
    case False
    with Some show ?thesis
      by (simp add: reconcile_merge [of getPlanPolicy R d E])
  qed
  then show ?thesis
    by (simp add: assms)
qed

lemma updateDb_Acked:
  "updateDb Acked now s p =
     (Inr (p\<lparr>UpdatedAt := now\<rparr>), s(TenantPlan.Name p \<mapsto> p\<lparr>UpdatedAt := now\<rparr>))"
  by (simp add: updateDb_def Let_def)

lemma updateDb_fails:
  "io \<noteq> Acked \<Longrightarrow> \<exists>err. updateDb io now s p = (Inl err, s)"
  by (cases io) (simp_all add: updateDb_def Let_def)

lemma UpdateTenant_cases:
  "UpdateTenant g now1 io now2 s K R =
     (case ReconcileTenantPlan g now1 (R\<lparr>TenantPlan.Name := K\<rparr>) (existingOf s K) of
        Inl err \<Rightarrow> ((emptyPlan, 422, Some err), s)
      | Inr newPlan \<Rightarrow>
          (case updateDb io now2 s newPlan of
             (Inl err, s') \<Rightarrow> ((emptyPlan, 500, Some err), s')
           | (Inr updatedPlan, s') \<Rightarrow> ((updatedPlan, 200, None), s')))"
  by (simp add: UpdateTenant_def existingOf_def GetTenant_def Let_def split: option.splits)

lemma snd_UpdateTenant:
  "snd (UpdateTenant g now1 io now2 s K R) =
     (case ReconcileTenantPlan g now1 (R\<lparr>TenantPlan.Name := K\<rparr>) (existingOf s K) of
        Inl err \<Rightarrow> s
      | Inr newPlan \<Rightarrow> snd (updateDb io now2 s newPlan))"
  by (simp add: UpdateTenant_cases split: sum.splits prod.splits)

text \<open>
  Run without interruption, \<open>UpdateTenant\<close> is its read followed by the rest on the same
  map.
\<close>

lemma UpdateTenant_read_then_rest:
  "UpdateTenant g now1 io now2 s K R
     = UpdateTenant_after_read g now1 io now2 s K R (existingOf s K)"
  by (simp add: UpdateTenant_def UpdateTenant_after_read_def existingOf_def GetTenant_def
      split: option.splits)

lemma DeleteTenant_result:
  "DeleteTenant io now s K =
     (case s K of
        None \<Rightarrow> (Inl NotFound, s)
      | Some t0 \<Rightarrow>
          if io = Acked
          then (Inr (t0\<lparr>TenantStatus := Deleted\<rparr>),
                (s(TenantPlan.Name t0 \<mapsto> t0\<lparr>TenantStatus := Deleted, UpdatedAt := now\<rparr>))
                  (K := None))
          else (fst (updateDb io now s (t0\<lparr>TenantStatus := Deleted\<rparr>)), s))"
  by (cases io) (simp_all add: DeleteTenant_def updateDb_def Let_def split: option.splits)

text \<open>Two evaluations on the sample table: the first write for \<open>acme\<close>.\<close>

lemma free_create:
  "ReconcileTenantPlan samplePlans 1
     (emptyPlan\<lparr>PlanType := ''free'', TenantPlan.Name := ''acme''\<rparr>) emptyPlan
     = Inr (acmePlan\<lparr>UpdatedAt := 1\<rparr>)"
  using reconcile_create
    [of samplePlans "emptyPlan\<lparr>PlanType := ''free'', TenantPlan.Name := ''acme''\<rparr>" freePolicy 1]
  by (simp add: samplePlans_def ToLower_free emptyPlan_def acmePlan_def)

lemma free_write:
  "UpdateTenant samplePlans 1 Acked 2 Map.empty ''acme'' (emptyPlan\<lparr>PlanType := ''free''\<rparr>)
     = ((acmePlan, 200, None), Map.empty(''acme'' \<mapsto> acmePlan))"
  using free_create by (simp add: UpdateTenant_cases existingOf_def updateDb_Acked acmePlan_def)

subsection \<open>Key/name coherence, operation by operation\<close>

lemma coherent_applyEntry: "coherent s \<Longrightarrow> coherent (applyEntry s t)"
  by (simp add: coherent_def applyEntry_def)

lemma coherent_updateDb: "coherent s \<Longrightarrow> coherent (snd (updateDb io now s p))"
  by (cases io) (simp_all add: coherent_def updateDb_def Let_def)

lemma coherent_UpdateTenant:
  "coherent s \<Longrightarrow> coherent (snd (UpdateTenant g now1 io now2 s K R))"
  by (simp add: snd_UpdateTenant coherent_updateDb split: sum.splits)

lemma coherent_DeleteTenant:
  assumes "coherent s"
  shows "coherent (snd (DeleteTenant io now s K))"
proof (cases "s K")
  case None
  with assms show ?thesis by (simp add: DeleteTenant_def)
next
  case (Some t0)
  have "coherent (snd (updateDb io now s (t0\<lparr>TenantStatus := Deleted\<rparr>)))"
    using assms by (rule coherent_updateDb)
  then show ?thesis
    using Some
    by (auto simp add: DeleteTenant_def Let_def coherent_def split: sum.splits prod.splits)
qed

lemma coherent_dbListenerLoop: "coherent s \<Longrightarrow> coherent (fst (dbListenerLoop s evs))"
  by (induction s evs rule: dbListenerLoop.induct) (simp_all add: coherent_applyEntry)

lemma UpdateTenant_ignores_Name:
  "UpdateTenant g now1 io now2 s K (R\<lparr>TenantPlan.Name := n\<rparr>)
     = UpdateTenant g now1 io now2 s K R"
  by (simp add: UpdateTenant_def)

subsection \<open>What a run of the reader loop does to one key\<close>

lemma applyEntry_same:
  "applyEntry s t (TenantPlan.Name t) = applyEntry s' t (TenantPlan.Name t)"
  by (simp add: applyEntry_def)

lemma applyEntry_other: "k \<noteq> TenantPlan.Name t \<Longrightarrow> applyEntry s t k = s k"
  by (simp add: applyEntry_def)

text \<open>
  A key that the run touches ends as it would from the empty cache; every other key is
  left as it was. The start cache changes along the loop, so it is generalised.
\<close>

lemma dbListenerLoop_key:
  "fst (dbListenerLoop s evs) k =
     (if k \<in> touched evs then fst (dbListenerLoop Map.empty evs) k else s k)"
proof (induction evs arbitrary: s)
  case Nil
  show ?case by simp
next
  case (Cons ev evs)
  show ?case
  proof (cases ev)
    case NextFails
    then show ?thesis by simp
  next
    case (Msg t err)
    have a: "fst (dbListenerLoop (applyEntry s t) evs) k =
       (if k \<in> touched evs then fst (dbListenerLoop Map.empty evs) k else applyEntry s t k)"
      by (rule Cons.IH)
    have b: "fst (dbListenerLoop (applyEntry Map.empty t) evs) k =
       (if k \<in> touched evs then fst (dbListenerLoop Map.empty evs) k
        else applyEntry Map.empty t k)"
      by (rule Cons.IH)
    show ?thesis
    proof (cases "k = TenantPlan.Name t")
      case True
      then show ?thesis
        using a b Msg applyEntry_same [of s t Map.empty] by simp
    next
      case False
      then show ?thesis
        using a b Msg by (simp add: applyEntry_other)
    qed
  qed
qed

lemma dbListenerLoop_idem:
  "fst (dbListenerLoop (fst (dbListenerLoop Map.empty evs)) evs)
     = fst (dbListenerLoop Map.empty evs)"
proof
  fix k
  show "fst (dbListenerLoop (fst (dbListenerLoop Map.empty evs)) evs) k
          = fst (dbListenerLoop Map.empty evs) k"
    by (simp add: dbListenerLoop_key [of "fst (dbListenerLoop Map.empty evs)"])
qed

subsection \<open>The creation branch\<close>

text \<open>
  C4 (as the code has it). For every requested plan \<open>R\<close> with a recognised plan type,
  \<open>ReconcileTenantPlan R TenantPlan{}\<close> takes the creation branch and succeeds. The status
  of the result is \<open>Activated\<close> unless \<open>R\<close> set a status other than \<open>Reserved0\<close>; the audit is
  the marker \<open>initial creation,\<close> if \<open>R\<close>'s audit was empty; the policy is the default of
  the plan class when \<open>R\<close>'s policy as a whole is the zero \<open>PlanPolicy{}\<close>, and \<open>R\<close>'s own
  policy, unchanged, otherwise. The other fields are \<open>R\<close>'s, with \<open>UpdatedAt\<close> stamped.
\<close>

theorem ReconcileTenantPlan_creation_branch:
  assumes "getPlanPolicy (ToLower (PlanType R)) = Some d"
  shows "\<exists>r. ReconcileTenantPlan getPlanPolicy now R emptyPlan = Inr r
           \<and> TenantStatus r = (if TenantStatus R = Reserved0 then Activated else TenantStatus R)
           \<and> Audit r = (if Audit R = [] then ''initial creation,'' else Audit R)
           \<and> Policy r = (if Policy R = emptyPolicy then d else Policy R)
           \<and> TenantPlan.Name r = TenantPlan.Name R \<and> Org r = Org R \<and> Users r = Users R
           \<and> PlanType r = PlanType R \<and> UpdatedAt r = now"
  using assms by (simp add: reconcile_create [of getPlanPolicy R d now])

theorem ReconcileTenantPlan_creation_branch_witness:
  "samplePlans (ToLower (PlanType (emptyPlan\<lparr>PlanType := ''free''\<rparr>))) = Some freePolicy
   \<and> (\<exists>r. ReconcileTenantPlan samplePlans 7 (emptyPlan\<lparr>PlanType := ''free''\<rparr>) emptyPlan = Inr r
         \<and> TenantStatus r = Activated \<and> Audit r = ''initial creation,''
         \<and> Policy r = freePolicy \<and> UpdatedAt r = 7)"
proof -
  have h: "samplePlans (ToLower (PlanType (emptyPlan\<lparr>PlanType := ''free''\<rparr>))) = Some freePolicy"
    by (simp add: samplePlans_def ToLower_free emptyPlan_def)
  show ?thesis
    using h ReconcileTenantPlan_creation_branch
      [of samplePlans "emptyPlan\<lparr>PlanType := ''free''\<rparr>" freePolicy 7]
    by (clarsimp simp: emptyPlan_def)
qed

text \<open>
  The claim as the specification words it fails at a request that sets one quota and
  leaves the rest of the policy unset: the guard compares the whole policy with
  \<open>PlanPolicy{}\<close>, so the class default 1 of \<open>NumOfNamespaces\<close> is not filled in.
\<close>

theorem ReconcileTenantPlan_creation_partial_policy_counterexample:
  "ReconcileTenantPlan samplePlans 7
     (emptyPlan\<lparr>PlanType := ''free'', Policy := emptyPolicy\<lparr>NumOfTopics := 9\<rparr>\<rparr>) emptyPlan =
   Inr (emptyPlan\<lparr>PlanType := ''free'', UpdatedAt := 7, TenantStatus := Activated,
          Audit := ''initial creation,'', Policy := emptyPolicy\<lparr>NumOfTopics := 9\<rparr>\<rparr>)
   \<and> NumOfNamespaces (emptyPolicy\<lparr>NumOfTopics := 9\<rparr>) = 0
   \<and> samplePlans (ToLower ''free'') = Some freePolicy
   \<and> NumOfNamespaces freePolicy = 1"
  by (simp add: ReconcileTenantPlan_def Let_def takeTenantStatus_def samplePlans_def
      ToLower_free emptyPlan_def emptyPolicy_def freePolicy_def)

subsection \<open>The update branch\<close>

text \<open>
  C5 (as the code has it). For every requested plan \<open>R\<close> with a recognised plan type and
  every existing plan \<open>E\<close> other than the zero plan, the update branch succeeds, and
  \<^item> each of the quotas \<open>NumOfTopics\<close>, \<open>NumOfNamespaces\<close>, \<open>NumOfProducers\<close>,
    \<open>NumOfConsumers\<close>, \<open>Functions\<close> and \<open>MessageHourRetention\<close> keeps the requested value iff
    it is non-zero and otherwise inherits the existing one;
  \<^item> \<open>MessageRetention\<close> is not merged: it is the merged \<open>MessageHourRetention\<close> times
    \<open>time.Hour\<close>, whatever the request and the existing plan held;
  \<^item> each of \<open>Policy.Name\<close>, \<open>Policy.FeatureCodes\<close>, \<open>Org\<close> and \<open>Users\<close> keeps the
    requested string iff it is non-empty and otherwise inherits;
  \<^item> the status is the requested one unless that is \<open>Reserved0\<close>, when it inherits;
  \<^item> \<open>Name\<close> and \<open>PlanType\<close> are the request's as they are, \<open>Audit\<close> is the existing audit,
    a comma and the requested audit, \<open>UpdatedAt\<close> is the time of the call.
\<close>

theorem ReconcileTenantPlan_update_branch:
  assumes "getPlanPolicy (ToLower (PlanType R)) = Some d" and "E \<noteq> emptyPlan"
  shows "\<exists>r. ReconcileTenantPlan getPlanPolicy now R E = Inr r
     \<and> NumOfTopics (Policy r) =
         (if NumOfTopics (Policy R) \<noteq> 0 then NumOfTopics (Policy R) else NumOfTopics (Policy E))
     \<and> NumOfNamespaces (Policy r) =
         (if NumOfNamespaces (Policy R) \<noteq> 0 then NumOfNamespaces (Policy R)
          else NumOfNamespaces (Policy E))
     \<and> NumOfProducers (Policy r) =
         (if NumOfProducers (Policy R) \<noteq> 0 then NumOfProducers (Policy R)
          else NumOfProducers (Policy E))
     \<and> NumOfConsumers (Policy r) =
         (if NumOfConsumers (Policy R) \<noteq> 0 then NumOfConsumers (Policy R)
          else NumOfConsumers (Policy E))
     \<and> Functions (Policy r) =
         (if Functions (Policy R) \<noteq> 0 then Functions (Policy R) else Functions (Policy E))
     \<and> MessageHourRetention (Policy r) =
         (if MessageHourRetention (Policy R) \<noteq> 0 then MessageHourRetention (Policy R)
          else MessageHourRetention (Policy E))
     \<and> MessageRetention (Policy r) = MessageHourRetention (Policy r) * Hour
     \<and> PlanPolicy.Name (Policy r) =
         (if PlanPolicy.Name (Policy R) \<noteq> [] then PlanPolicy.Name (Policy R)
          else PlanPolicy.Name (Policy E))
     \<and> FeatureCodes (Policy r) =
         (if FeatureCodes (Policy R) \<noteq> [] then FeatureCodes (Policy R)
          else FeatureCodes (Policy E))
     \<and> Org r = (if Org R \<noteq> [] then Org R else Org E)
     \<and> Users r = (if Users R \<noteq> [] then Users R else Users E)
     \<and> TenantStatus r =
         (if TenantStatus R \<noteq> Reserved0 then TenantStatus R else TenantStatus E)
     \<and> TenantPlan.Name r = TenantPlan.Name R \<and> PlanType r = PlanType R
     \<and> Audit r = Audit E @ '','' @ Audit R \<and> UpdatedAt r = now"
  using assms by (simp add: reconcile_merge [of getPlanPolicy R d E now])

text \<open>
  The two quota examples of the specification at once: the request leaves \<open>NumOfTopics\<close>
  at 0 and asks for 7 namespaces, the existing plan has 5 of each; the result has 5
  topics and 7 namespaces.
\<close>

theorem ReconcileTenantPlan_update_branch_witness:
  "samplePlans (ToLower (PlanType
      (emptyPlan\<lparr>PlanType := ''free'', Policy := emptyPolicy\<lparr>NumOfNamespaces := 7\<rparr>\<rparr>)))
     = Some freePolicy
   \<and> emptyPlan\<lparr>TenantPlan.Name := ''acme'',
        Policy := emptyPolicy\<lparr>NumOfTopics := 5, NumOfNamespaces := 5\<rparr>\<rparr> \<noteq> emptyPlan
   \<and> (\<exists>r. ReconcileTenantPlan samplePlans 7
            (emptyPlan\<lparr>PlanType := ''free'', Policy := emptyPolicy\<lparr>NumOfNamespaces := 7\<rparr>\<rparr>)
            (emptyPlan\<lparr>TenantPlan.Name := ''acme'',
               Policy := emptyPolicy\<lparr>NumOfTopics := 5, NumOfNamespaces := 5\<rparr>\<rparr>) = Inr r
          \<and> NumOfTopics (Policy r) = 5 \<and> NumOfNamespaces (Policy r) = 7)"
proof -
  have h1: "samplePlans (ToLower (PlanType
      (emptyPlan\<lparr>PlanType := ''free'', Policy := emptyPolicy\<lparr>NumOfNamespaces := 7\<rparr>\<rparr>)))
     = Some freePolicy"
    by (simp add: samplePlans_def ToLower_free emptyPlan_def)
  have h2: "emptyPlan\<lparr>TenantPlan.Name := ''acme'',
        Policy := emptyPolicy\<lparr>NumOfTopics := 5, NumOfNamespaces := 5\<rparr>\<rparr> \<noteq> emptyPlan"
    by (simp add: emptyPlan_def)
  show ?thesis
    using h1 h2 ReconcileTenantPlan_update_branch
      [of samplePlans
          "emptyPlan\<lparr>PlanType := ''free'', Policy := emptyPolicy\<lparr>NumOfNamespaces := 7\<rparr>\<rparr>"
          freePolicy
          "emptyPlan\<lparr>TenantPlan.Name := ''acme'',
             Policy := emptyPolicy\<lparr>NumOfTopics := 5, NumOfNamespaces := 5\<rparr>\<rparr>"
          7]
    by (clarsimp simp: emptyPlan_def emptyPolicy_def)
qed

text \<open>
  Where the claim as worded fails: \<open>MessageRetention\<close> is a numeric field of the policy
  that the update branch overwrites. First, a requested non-zero \<open>MessageRetention\<close> of 5
  is not kept (the result has one hour, from the existing \<open>MessageHourRetention\<close>). Second,
  a request that leaves the whole policy unset does not inherit the existing
  \<open>MessageRetention\<close> of 5: the result has 0. In both, the request's empty \<open>Name\<close> is not
  filled from the existing \<open>acme\<close> either.
\<close>

theorem ReconcileTenantPlan_update_MessageRetention_counterexample:
  "ReconcileTenantPlan samplePlans 7
     (emptyPlan\<lparr>PlanType := ''free'', Policy := emptyPolicy\<lparr>MessageRetention := 5\<rparr>\<rparr>)
     (emptyPlan\<lparr>TenantPlan.Name := ''acme'',
        Policy := emptyPolicy\<lparr>MessageHourRetention := 1, MessageRetention := Hour\<rparr>\<rparr>)
   = Inr (emptyPlan\<lparr>PlanType := ''free'', UpdatedAt := 7, Audit := '','',
            Policy := emptyPolicy\<lparr>MessageHourRetention := 1, MessageRetention := Hour\<rparr>\<rparr>)
   \<and> ReconcileTenantPlan samplePlans 7
     (emptyPlan\<lparr>PlanType := ''free''\<rparr>)
     (emptyPlan\<lparr>TenantPlan.Name := ''acme'',
        Policy := emptyPolicy\<lparr>NumOfTopics := 3, MessageRetention := 5\<rparr>\<rparr>)
   = Inr (emptyPlan\<lparr>PlanType := ''free'', UpdatedAt := 7, Audit := '','',
            Policy := emptyPolicy\<lparr>NumOfTopics := 3, MessageRetention := 0\<rparr>\<rparr>)
   \<and> Hour \<noteq> 5"
  by (simp add: ReconcileTenantPlan_def Let_def takeTenantStatus_def takeNonZero_def
      AssignString_def samplePlans_def ToLower_free emptyPlan_def emptyPolicy_def Hour_def)

subsection \<open>What ReconcileTenantPlan depends on\<close>

text \<open>
  C9 (as the code has it). \<open>ReconcileTenantPlan\<close> takes its arguments by value and touches
  no state, but it reads the clock: the result is a function of the requested plan, the
  existing plan, the plan table and the time of the call. Two invocations with equal
  (requested, existing) inputs, at times \<open>now1\<close> and \<open>now2\<close>, either fail with the same
  error or both succeed, with results equal in every field except \<open>UpdatedAt\<close>, which is
  the time of each call.
\<close>

theorem ReconcileTenantPlan_equal_up_to_UpdatedAt:
  "(case ReconcileTenantPlan getPlanPolicy now1 R E of
      Inl err \<Rightarrow> ReconcileTenantPlan getPlanPolicy now2 R E = Inl err
    | Inr r \<Rightarrow> UpdatedAt r = now1
               \<and> ReconcileTenantPlan getPlanPolicy now2 R E = Inr (r\<lparr>UpdatedAt := now2\<rparr>))"
proof (cases "getPlanPolicy (ToLower (PlanType R))")
  case None
  then show ?thesis
    by (simp add: reconcile_unknown_plan)
next
  case (Some d)
  show ?thesis
  proof (cases "E = emptyPlan")
    case True
    with Some show ?thesis
      by (simp add: reconcile_create [of getPlanPolicy R d])
  next
    case False
    with Some show ?thesis
      by (simp add: reconcile_merge [of getPlanPolicy R d E])
  qed
qed

text \<open>
  The claim as worded (equal inputs give equal results) fails as soon as the clock has
  moved between the two calls.
\<close>

theorem ReconcileTenantPlan_clock_counterexample:
  "ReconcileTenantPlan samplePlans 1 (emptyPlan\<lparr>PlanType := ''free''\<rparr>) emptyPlan
     \<noteq> ReconcileTenantPlan samplePlans 2 (emptyPlan\<lparr>PlanType := ''free''\<rparr>) emptyPlan"
  by (simp add: ReconcileTenantPlan_def Let_def takeTenantStatus_def samplePlans_def
      ToLower_free emptyPlan_def)

subsection \<open>Read your own write\<close>

text \<open>
  C3 (as the code has it). For every key \<open>K\<close> and requested plan \<open>R\<close>, when
  \<open>UpdateTenant(K, R)\<close> returns with a nil error, the status code is 200 and
  \<open>GetTenant(K)\<close> on the cache it leaves finds exactly the plan that \<open>UpdateTenant\<close>
  returned. That plan is the reconciled result of \<open>R\<close>, with \<open>Name\<close> set to \<open>K\<close>, against
  the prior cache state, except for \<open>UpdatedAt\<close>: \<open>updateDb\<close> stamps it again with its own
  reading of the clock before it sends and stores the plan.
\<close>

theorem UpdateTenant_read_your_write:
  assumes "UpdateTenant g now1 io now2 s K R = ((p, code, None), s')"
  shows "GetTenant s' K = Inr p \<and> code = 200
     \<and> (\<exists>r. ReconcileTenantPlan g now1 (R\<lparr>TenantPlan.Name := K\<rparr>) (existingOf s K) = Inr r
            \<and> p = r\<lparr>UpdatedAt := now2\<rparr>)"
proof (cases "ReconcileTenantPlan g now1 (R\<lparr>TenantPlan.Name := K\<rparr>) (existingOf s K)")
  case (Inl err)
  with assms show ?thesis by (simp add: UpdateTenant_cases)
next
  case (Inr newPlan)
  have nm: "TenantPlan.Name newPlan = K"
    using reconcile_Name [OF Inr] by simp
  show ?thesis
  proof (cases "io = Acked")
    case True
    with assms Inr nm show ?thesis
      by (auto simp add: UpdateTenant_cases updateDb_Acked GetTenant_def)
  next
    case False
    then obtain err where "updateDb io now2 s newPlan = (Inl err, s)"
      using updateDb_fails by blast
    with assms Inr show ?thesis
      by (simp add: UpdateTenant_cases)
  qed
qed

theorem UpdateTenant_read_your_write_witness:
  "UpdateTenant samplePlans 1 Acked 2 Map.empty ''acme'' (emptyPlan\<lparr>PlanType := ''free''\<rparr>)
     = ((acmePlan, 200, None), Map.empty(''acme'' \<mapsto> acmePlan))
   \<and> GetTenant (Map.empty(''acme'' \<mapsto> acmePlan)) ''acme'' = Inr acmePlan
   \<and> ReconcileTenantPlan samplePlans 1
        (emptyPlan\<lparr>PlanType := ''free'', TenantPlan.Name := ''acme''\<rparr>)
        (existingOf Map.empty ''acme'')
       = Inr (acmePlan\<lparr>UpdatedAt := 1\<rparr>)"
  using free_write free_create
    UpdateTenant_read_your_write
      [of samplePlans 1 Acked 2 Map.empty "''acme''" "emptyPlan\<lparr>PlanType := ''free''\<rparr>"
          acmePlan 200 "Map.empty(''acme'' \<mapsto> acmePlan)"]
  by (simp add: existingOf_def)

text \<open>
  The claim as worded (the record read back equals the reconciled result) fails when the
  clock moves between \<open>ReconcileTenantPlan\<close> (time 1) and \<open>updateDb\<close> (time 2): the
  successful write stores and returns the plan stamped 2, the reconciled result is
  stamped 1.
\<close>

theorem UpdateTenant_read_your_write_UpdatedAt_counterexample:
  "snd (snd (fst (UpdateTenant samplePlans 1 Acked 2 Map.empty ''acme''
                    (emptyPlan\<lparr>PlanType := ''free''\<rparr>)))) = None
   \<and> GetTenant (snd (UpdateTenant samplePlans 1 Acked 2 Map.empty ''acme''
                       (emptyPlan\<lparr>PlanType := ''free''\<rparr>))) ''acme''
       = Inr (acmePlan\<lparr>UpdatedAt := 2\<rparr>)
   \<and> ReconcileTenantPlan samplePlans 1
        (emptyPlan\<lparr>PlanType := ''free'', TenantPlan.Name := ''acme''\<rparr>) emptyPlan
       = Inr (acmePlan\<lparr>UpdatedAt := 1\<rparr>)
   \<and> acmePlan\<lparr>UpdatedAt := 2\<rparr> \<noteq> acmePlan\<lparr>UpdatedAt := 1\<rparr>"
  by (simp add: free_write free_create GetTenant_def acmePlan_def)

subsection \<open>A failed append leaves the cache alone\<close>

text \<open>
  C7. For every plan, if the append fails in any of its three ways (creating the
  producer, serialising, sending), \<open>updateDb\<close> returns the error and the cache is exactly
  what it was before the call. \<open>UpdateTenant\<close>, once reconciliation has succeeded,
  returns that error with status 500 and the cache unchanged (when reconciliation fails
  it has returned 422 before any append).
\<close>

theorem append_failure_keeps_cache:
  assumes "io \<noteq> Acked"
  shows "(\<exists>err. updateDb io now s p = (Inl err, s))
     \<and> (case ReconcileTenantPlan g now1 (R\<lparr>TenantPlan.Name := K\<rparr>) (existingOf s K) of
          Inl err \<Rightarrow> UpdateTenant g now1 io now s K R = ((emptyPlan, 422, Some err), s)
        | Inr newPlan \<Rightarrow>
            (\<exists>err. updateDb io now s newPlan = (Inl err, s)
                 \<and> UpdateTenant g now1 io now s K R = ((emptyPlan, 500, Some err), s)))"
proof -
  have a: "\<exists>err. updateDb io now s q = (Inl err, s)" for q
    using assms by (rule updateDb_fails)
  show ?thesis
  proof (cases "ReconcileTenantPlan g now1 (R\<lparr>TenantPlan.Name := K\<rparr>) (existingOf s K)")
    case (Inl err)
    then show ?thesis
      using a by (simp add: UpdateTenant_cases)
  next
    case (Inr newPlan)
    obtain err where "updateDb io now s newPlan = (Inl err, s)"
      using a by blast
    with Inr show ?thesis
      using a by (simp add: UpdateTenant_cases)
  qed
qed

theorem append_failure_keeps_cache_witness:
  "SendFails \<noteq> Acked
   \<and> (\<exists>err. updateDb SendFails 5 (Map.empty(''acme'' \<mapsto> acmePlan)) acmePlan
               = (Inl err, Map.empty(''acme'' \<mapsto> acmePlan)))
   \<and> (\<exists>err. UpdateTenant samplePlans 4 SendFails 5 (Map.empty(''acme'' \<mapsto> acmePlan)) ''acme''
                 (emptyPlan\<lparr>PlanType := ''free'', Org := ''umbrella''\<rparr>)
               = ((emptyPlan, 500, Some err), Map.empty(''acme'' \<mapsto> acmePlan)))"
proof -
  have h: "SendFails \<noteq> Acked"
    by simp
  have ne: "acmePlan \<noteq> emptyPlan"
    by (simp add: acmePlan_def emptyPlan_def)
  have r: "\<exists>r. ReconcileTenantPlan samplePlans 4
        (emptyPlan\<lparr>PlanType := ''free'', Org := ''umbrella'', TenantPlan.Name := ''acme''\<rparr>)
        (existingOf (Map.empty(''acme'' \<mapsto> acmePlan)) ''acme'') = Inr r"
    using ne reconcile_merge [of samplePlans
        "emptyPlan\<lparr>PlanType := ''free'', Org := ''umbrella'', TenantPlan.Name := ''acme''\<rparr>"
        freePolicy acmePlan 4]
    by (simp add: existingOf_def samplePlans_def ToLower_free emptyPlan_def)
  show ?thesis
    using h r append_failure_keeps_cache
      [where io = SendFails and now = 5 and s = "Map.empty(''acme'' \<mapsto> acmePlan)"
        and p = acmePlan and g = samplePlans and ?now1.0 = 4 and K = "''acme''"
        and R = "emptyPlan\<lparr>PlanType := ''free'', Org := ''umbrella''\<rparr>"]
    by auto
qed

subsection \<open>Key/name coherence\<close>

text \<open>
  C10. Every operation preserves the invariant that each key of the tenants cache holds
  a plan whose \<open>Name\<close> is that key: \<open>UpdateTenant\<close>, \<open>updateDb\<close>, \<open>DeleteTenant\<close>, the
  consumer applying one entry, and a whole run of \<open>dbListener\<close>. \<open>UpdateTenant\<close>
  overwrites the \<open>Name\<close> of the request with its \<open>tenantName\<close> argument, so a name in the
  request body has no effect; \<open>updateDb\<close> stores the plan under the plan's own \<open>Name\<close>,
  and so does the consumer.
\<close>

theorem key_name_coherence:
  assumes "coherent s"
  shows "coherent (snd (UpdateTenant g now1 io now2 s K R))
     \<and> coherent (snd (updateDb io now2 s p))
     \<and> coherent (snd (DeleteTenant io now2 s K))
     \<and> coherent (applyEntry s t)
     \<and> coherent (fst (dbListener b s evs))
     \<and> UpdateTenant g now1 io now2 s K (R\<lparr>TenantPlan.Name := n\<rparr>)
         = UpdateTenant g now1 io now2 s K R
     \<and> snd (updateDb Acked now2 s p) (TenantPlan.Name p) = Some (p\<lparr>UpdatedAt := now2\<rparr>)
     \<and> (TenantStatus t \<noteq> Deleted \<longrightarrow> applyEntry s t (TenantPlan.Name t) = Some t)"
proof -
  have stored: "TenantStatus t \<noteq> Deleted \<longrightarrow> applyEntry s t (TenantPlan.Name t) = Some t"
    by (simp add: applyEntry_def)
  show ?thesis
    using assms stored
    by (simp add: coherent_UpdateTenant coherent_updateDb coherent_DeleteTenant
        coherent_applyEntry coherent_dbListenerLoop UpdateTenant_ignores_Name dbListener_def
        updateDb_Acked)
qed

theorem key_name_coherence_witness:
  "coherent (Map.empty(''acme'' \<mapsto> acmePlan))
   \<and> coherent (snd (UpdateTenant samplePlans 4 Acked 5 (Map.empty(''acme'' \<mapsto> acmePlan)) ''beta''
                      (emptyPlan\<lparr>PlanType := ''free'', TenantPlan.Name := ''gamma''\<rparr>)))
   \<and> coherent (snd (DeleteTenant Acked 5 (Map.empty(''acme'' \<mapsto> acmePlan)) ''acme''))
   \<and> coherent (applyEntry (Map.empty(''acme'' \<mapsto> acmePlan))
                 (acmePlan\<lparr>TenantPlan.Name := ''beta''\<rparr>))
   \<and> TenantStatus (acmePlan\<lparr>TenantPlan.Name := ''beta''\<rparr>) \<noteq> Deleted
   \<and> applyEntry (Map.empty(''acme'' \<mapsto> acmePlan)) (acmePlan\<lparr>TenantPlan.Name := ''beta''\<rparr>) ''beta''
       = Some (acmePlan\<lparr>TenantPlan.Name := ''beta''\<rparr>)"
proof -
  have h: "coherent (Map.empty(''acme'' \<mapsto> acmePlan))"
    by (simp add: coherent_def acmePlan_def)
  have d: "TenantStatus (acmePlan\<lparr>TenantPlan.Name := ''beta''\<rparr>) \<noteq> Deleted"
    by (simp add: acmePlan_def)
  show ?thesis
    using h d
      key_name_coherence [OF h, where g = samplePlans and ?now1.0 = 4 and io = Acked
        and ?now2.0 = 5 and K = "''beta''"
        and R = "emptyPlan\<lparr>PlanType := ''free'', TenantPlan.Name := ''gamma''\<rparr>"]
      key_name_coherence [OF h, where io = Acked and ?now2.0 = 5 and K = "''acme''"
        and t = "acmePlan\<lparr>TenantPlan.Name := ''beta''\<rparr>"]
    by simp
qed

subsection \<open>Records with status Deleted in the cache\<close>

text \<open>
  C2 asks that no state reachable by any interleaving of \<open>UpdateTenant\<close>, \<open>DeleteTenant\<close>
  and the consumer holds a record with status \<open>Deleted\<close>, that a delete removes the key
  with \<open>delete\<close> and never Sets the tombstoned record, also at every point inside
  \<open>DeleteTenant\<close>. The consumer does so; the writer path does not. Evaluated on the
  cache that holds the activated plan of \<open>acme\<close>, with \<open>DeleteTenant(acme)\<close> acknowledged
  at time 3:
  \<^item> \<open>updateDb\<close>, called by \<open>DeleteTenant\<close> with the tombstoned plan, Sets that plan under
    \<open>acme\<close>; this is the cache inside \<open>DeleteTenant\<close> until its \<open>delete\<close> runs, which
    leaves the empty cache;
  \<^item> an \<open>UpdateTenant(acme, R)\<close> with \<open>R\<close>'s status unset that reads the cache in between
    gets the tombstoned plan as its existing record;
  \<^item> after \<open>DeleteTenant\<close> has deleted the key and returned, that \<open>UpdateTenant\<close> goes on:
    the update branch inherits the status \<open>Deleted\<close>, \<open>updateDb\<close> stores the result, and the
    call returns 200. Both calls have returned and the cache holds a \<open>Deleted\<close> record,
    though no request carried that status;
  \<^item> on its own, an \<open>UpdateTenant\<close> whose request carries the status \<open>Deleted\<close> leaves that
    record in the cache as well.
\<close>

theorem writer_path_sets_Deleted_record:
  "snd (updateDb Acked 3 (Map.empty(''acme'' \<mapsto> acmePlan))
          (acmePlan\<lparr>TenantStatus := Deleted\<rparr>))
     = Map.empty(''acme'' \<mapsto> acmePlan\<lparr>TenantStatus := Deleted, UpdatedAt := 3\<rparr>)
   \<and> DeleteTenant Acked 3 (Map.empty(''acme'' \<mapsto> acmePlan)) ''acme''
     = (Inr (acmePlan\<lparr>TenantStatus := Deleted\<rparr>),
        (Map.empty(''acme'' \<mapsto> acmePlan\<lparr>TenantStatus := Deleted, UpdatedAt := 3\<rparr>))
          (''acme'' := None))
   \<and> (Map.empty(''acme'' \<mapsto> acmePlan\<lparr>TenantStatus := Deleted, UpdatedAt := 3\<rparr>))
          (''acme'' := None) = Map.empty
   \<and> existingOf (Map.empty(''acme'' \<mapsto> acmePlan\<lparr>TenantStatus := Deleted, UpdatedAt := 3\<rparr>))
        ''acme''
     = acmePlan\<lparr>TenantStatus := Deleted, UpdatedAt := 3\<rparr>
   \<and> UpdateTenant_after_read samplePlans 4 Acked 5 Map.empty ''acme''
        (emptyPlan\<lparr>PlanType := ''free''\<rparr>)
        (acmePlan\<lparr>TenantStatus := Deleted, UpdatedAt := 3\<rparr>)
     = ((acmePlan\<lparr>TenantStatus := Deleted, UpdatedAt := 5, Audit := ''initial creation,,''\<rparr>,
         200, None),
        Map.empty(''acme'' \<mapsto>
          acmePlan\<lparr>TenantStatus := Deleted, UpdatedAt := 5, Audit := ''initial creation,,''\<rparr>))
   \<and> TenantStatus (emptyPlan\<lparr>PlanType := ''free''\<rparr>) = Reserved0
   \<and> snd (UpdateTenant samplePlans 1 Acked 2 Map.empty ''acme''
            (emptyPlan\<lparr>PlanType := ''free'', TenantStatus := Deleted\<rparr>))
     = Map.empty(''acme'' \<mapsto> acmePlan\<lparr>TenantStatus := Deleted\<rparr>)"
proof -
  let ?s0 = "Map.empty(''acme'' \<mapsto> acmePlan)"
  let ?tomb = "acmePlan\<lparr>TenantStatus := Deleted, UpdatedAt := 3\<rparr>"
  let ?left = "acmePlan\<lparr>TenantStatus := Deleted, UpdatedAt := 5, Audit := ''initial creation,,''\<rparr>"
  have a: "snd (updateDb Acked 3 ?s0 (acmePlan\<lparr>TenantStatus := Deleted\<rparr>))
             = Map.empty(''acme'' \<mapsto> ?tomb)"
    by (simp add: updateDb_Acked acmePlan_def)
  have b: "DeleteTenant Acked 3 ?s0 ''acme''
             = (Inr (acmePlan\<lparr>TenantStatus := Deleted\<rparr>),
                (Map.empty(''acme'' \<mapsto> ?tomb))(''acme'' := None))"
    by (simp add: DeleteTenant_result acmePlan_def)
  have c: "(Map.empty(''acme'' \<mapsto> ?tomb))(''acme'' := None) = Map.empty"
    by simp
  have d: "existingOf (Map.empty(''acme'' \<mapsto> ?tomb)) ''acme'' = ?tomb"
    by (simp add: existingOf_def)
  have ne: "?tomb \<noteq> emptyPlan"
    by (simp add: acmePlan_def emptyPlan_def)
  have r: "ReconcileTenantPlan samplePlans 4
             (emptyPlan\<lparr>PlanType := ''free'', TenantPlan.Name := ''acme''\<rparr>) ?tomb
             = Inr (?left\<lparr>UpdatedAt := 4\<rparr>)"
    using ne reconcile_merge [of samplePlans
        "emptyPlan\<lparr>PlanType := ''free'', TenantPlan.Name := ''acme''\<rparr>" freePolicy ?tomb 4]
    by (simp add: samplePlans_def ToLower_free emptyPlan_def emptyPolicy_def acmePlan_def
        freePolicy_def)
  have e: "UpdateTenant_after_read samplePlans 4 Acked 5 Map.empty ''acme''
             (emptyPlan\<lparr>PlanType := ''free''\<rparr>) ?tomb
             = ((?left, 200, None), Map.empty(''acme'' \<mapsto> ?left))"
    using r by (simp add: UpdateTenant_after_read_def updateDb_Acked acmePlan_def)
  have f: "TenantStatus (emptyPlan\<lparr>PlanType := ''free''\<rparr>) = Reserved0"
    by (simp add: emptyPlan_def)
  have "ReconcileTenantPlan samplePlans 1
          (emptyPlan\<lparr>PlanType := ''free'', TenantStatus := Deleted, TenantPlan.Name := ''acme''\<rparr>)
          emptyPlan
     = Inr (acmePlan\<lparr>TenantStatus := Deleted, UpdatedAt := 1\<rparr>)"
    using reconcile_create [of samplePlans
        "emptyPlan\<lparr>PlanType := ''free'', TenantStatus := Deleted, TenantPlan.Name := ''acme''\<rparr>"
        freePolicy 1]
    by (simp add: samplePlans_def ToLower_free emptyPlan_def acmePlan_def)
  then have g: "snd (UpdateTenant samplePlans 1 Acked 2 Map.empty ''acme''
          (emptyPlan\<lparr>PlanType := ''free'', TenantStatus := Deleted\<rparr>))
     = Map.empty(''acme'' \<mapsto> acmePlan\<lparr>TenantStatus := Deleted\<rparr>)"
    by (simp add: UpdateTenant_cases existingOf_def updateDb_Acked acmePlan_def)
  show ?thesis
    using a b c d e f g by simp
qed

subsection \<open>The two writes for acme\<close>

text \<open>
  C6. With a recognised plan type, two acknowledged writes for the key \<open>acme\<close> on an empty
  cache: the first with status unset, every quota at 10 and no audit (a creation), the
  second with status unset, every quota 0 and the audit \<open>bump\<close> (an update). The cache
  entry for \<open>acme\<close> then has status \<open>Activated\<close>, the quotas at 10 and the audit
  \<open>initial creation,,bump\<close>: the update's audit follows the whole existing audit after a
  comma. The second write returns this record, and \<open>dbListener\<close> replaying the two
  records that the writes sent to the topic, on an empty cache, ends with the same entry.
\<close>

theorem two_writes_acme_example:
  assumes "g (ToLower pt) = Some d"
  shows "let w1 = UpdateTenant g t1 Acked t2 Map.empty ''acme''
                   (emptyPlan\<lparr>PlanType := pt, Policy := quota10\<rparr>);
             w2 = UpdateTenant g t3 Acked t4 (snd w1) ''acme''
                   (emptyPlan\<lparr>PlanType := pt, Audit := ''bump''\<rparr>);
             final = \<lparr>TenantPlan.Name = ''acme'', TenantStatus = Activated, Org = [],
                      Users = [], PlanType = pt, UpdatedAt = t4, Policy = quota10,
                      Audit = ''initial creation,,bump''\<rparr>
         in GetTenant (snd w2) ''acme'' = Inr final
          \<and> fst w2 = (final, 200, None)
          \<and> fst (dbListener False Map.empty
                   [Msg (fst (fst w1)) None, Msg (fst (fst w2)) None]) ''acme''
               = Some final"
proof -
  let ?R1 = "emptyPlan\<lparr>PlanType := pt, Policy := quota10\<rparr>"
  let ?R2 = "emptyPlan\<lparr>PlanType := pt, Audit := ''bump''\<rparr>"
  let ?p1 = "\<lparr>TenantPlan.Name = ''acme'', TenantStatus = Activated, Org = [], Users = [],
               PlanType = pt, UpdatedAt = t2, Policy = quota10,
               Audit = ''initial creation,''\<rparr>"
  let ?final = "\<lparr>TenantPlan.Name = ''acme'', TenantStatus = Activated, Org = [], Users = [],
                  PlanType = pt, UpdatedAt = t4, Policy = quota10,
                  Audit = ''initial creation,,bump''\<rparr>"
  have q: "quota10 \<noteq> emptyPolicy"
    by (simp add: quota10_def emptyPolicy_def)
  have r1: "ReconcileTenantPlan g t1 (?R1\<lparr>TenantPlan.Name := ''acme''\<rparr>) emptyPlan
              = Inr (?p1\<lparr>UpdatedAt := t1\<rparr>)"
  proof -
    have "g (ToLower (PlanType (?R1\<lparr>TenantPlan.Name := ''acme''\<rparr>))) = Some d"
      using assms by simp
    then show ?thesis
      using q reconcile_create [of g "?R1\<lparr>TenantPlan.Name := ''acme''\<rparr>" d t1]
      by (simp add: emptyPlan_def)
  qed
  have w1: "UpdateTenant g t1 Acked t2 Map.empty ''acme'' ?R1
              = ((?p1, 200, None), Map.empty(''acme'' \<mapsto> ?p1))"
    using r1 by (simp add: UpdateTenant_cases existingOf_def updateDb_Acked)
  have ne: "?p1 \<noteq> emptyPlan"
    by (simp add: emptyPlan_def)
  have r2: "ReconcileTenantPlan g t3 (?R2\<lparr>TenantPlan.Name := ''acme''\<rparr>) ?p1
              = Inr (?final\<lparr>UpdatedAt := t3\<rparr>)"
  proof -
    have "g (ToLower (PlanType (?R2\<lparr>TenantPlan.Name := ''acme''\<rparr>))) = Some d"
      using assms by simp
    then show ?thesis
      using ne reconcile_merge [of g "?R2\<lparr>TenantPlan.Name := ''acme''\<rparr>" d ?p1 t3]
      by (simp add: emptyPlan_def emptyPolicy_def quota10_def)
  qed
  have w2: "UpdateTenant g t3 Acked t4 (Map.empty(''acme'' \<mapsto> ?p1)) ''acme'' ?R2
              = ((?final, 200, None), Map.empty(''acme'' \<mapsto> ?final))"
    using r2 by (simp add: UpdateTenant_cases existingOf_def updateDb_Acked)
  show ?thesis
    by (simp add: w1 w2 Let_def GetTenant_def dbListener_def applyEntry_def)
qed

theorem two_writes_acme_example_witness:
  "samplePlans (ToLower ''free'') = Some freePolicy
   \<and> (let w1 = UpdateTenant samplePlans 1 Acked 2 Map.empty ''acme''
                   (emptyPlan\<lparr>PlanType := ''free'', Policy := quota10\<rparr>);
           w2 = UpdateTenant samplePlans 3 Acked 4 (snd w1) ''acme''
                   (emptyPlan\<lparr>PlanType := ''free'', Audit := ''bump''\<rparr>);
           final = \<lparr>TenantPlan.Name = ''acme'', TenantStatus = Activated, Org = [],
                    Users = [], PlanType = ''free'', UpdatedAt = 4, Policy = quota10,
                    Audit = ''initial creation,,bump''\<rparr>
       in GetTenant (snd w2) ''acme'' = Inr final
        \<and> fst w2 = (final, 200, None)
        \<and> fst (dbListener False Map.empty
                 [Msg (fst (fst w1)) None, Msg (fst (fst w2)) None]) ''acme''
             = Some final)"
proof -
  have h: "samplePlans (ToLower ''free'') = Some freePolicy"
    by (simp add: samplePlans_def ToLower_free)
  show ?thesis
    using h two_writes_acme_example
      [where g = samplePlans and pt = "''free''" and d = freePolicy
        and ?t1.0 = 1 and ?t2.0 = 2 and ?t3.0 = 3 and ?t4.0 = 4]
    by simp
qed

subsection \<open>Replay\<close>

text \<open>
  C8. Replay is idempotent: for every sequence of deliveries, running the reader loop
  over the sequence (set for a status other than \<open>Deleted\<close>, delete for \<open>Deleted\<close>, in log
  order) once, twice or any number \<open>Suc n\<close> of times, starting from the empty cache and
  each time on the cache the last run left, ends with the cache that one run gives.
\<close>

theorem replay_idempotent:
  "(replay evs ^^ Suc n) Map.empty = replay evs Map.empty"
proof (induction n)
  case 0
  show ?case by simp
next
  case (Suc n)
  have "(replay evs ^^ Suc (Suc n)) Map.empty = replay evs ((replay evs ^^ Suc n) Map.empty)"
    by simp
  also have "\<dots> = replay evs (replay evs Map.empty)"
    by (simp only: Suc.IH)
  also have "\<dots> = replay evs Map.empty"
    by (simp add: replay_def dbListener_def dbListenerLoop_idem)
  finally show ?case .
qed

subsection \<open>A log entry that does not deserialise\<close>

text \<open>
  C1 asks that a log entry whose payload fails to deserialise terminates the loop with
  its signal and that no zero-valued or partly filled record reaches the cache. The
  source logs the error of \<open>json.Unmarshal\<close> and falls through to the locked statements.
  Evaluated on two logs: a payload that is not JSON leaves the zero \<open>TenantPlan{}\<close> in
  \<open>t\<close>, which is stored under the empty key while the loop goes on to wait for the next
  entry; a payload that fills \<open>Name\<close> and then fails is stored under that name, and the
  loop ends only at the later read error.
\<close>

theorem dbListener_applies_undecoded_entry:
  "dbListener False Map.empty [Msg emptyPlan (Some UnmarshalError)]
     = (Map.empty([] \<mapsto> emptyPlan), Waiting)
   \<and> dbListener False Map.empty
        [Msg (emptyPlan\<lparr>TenantPlan.Name := ''acme''\<rparr>) (Some UnmarshalError), NextFails]
     = (Map.empty(''acme'' \<mapsto> emptyPlan\<lparr>TenantPlan.Name := ''acme''\<rparr>),
        Terminated ReaderError)"
  by (simp add: dbListener_def applyEntry_def emptyPlan_def)

end
